theory Spec2Isabelle
  imports Complex_Main "HOL-Library.Multiset"
begin

section \<open>Commission and bonus calculation of \<^verbatim>\<open>app.py\<close>\<close>

text \<open>
  The development embeds the commission engine of \<^verbatim>\<open>src/app.py\<close>: the module
  constants \<^verbatim>\<open>P_AND_C_CATEGORIES\<close>, \<^verbatim>\<open>FS_CATEGORIES\<close> and \<^verbatim>\<open>CATEGORY_LABELS\<close>,
  the helpers \<^verbatim>\<open>get_commission_rate\<close>, \<^verbatim>\<open>fs_bonus\<close>, \<^verbatim>\<open>life_app_bonus\<close> and
  \<^verbatim>\<open>milestone_bonus\<close>, and the computation of \<^verbatim>\<open>commission_calculator\<close> from the
  queried \<^verbatim>\<open>sales\<close> to the \<^verbatim>\<open>context\<close> dictionary.

  Numbers. Counts are Python integers and are modelled as \<^typ>\<open>int\<close>. Amounts are Python
  floats; they are modelled as exact rationals (\<^typ>\<open>rat\<close>): a float literal stands for
  its decimal value, and \<^verbatim>\<open>+\<close>, \<^verbatim>\<open>*\<close> and \<^verbatim>\<open>sum\<close> are exact. IEEE rounding, infinities
  and NaN are outside the model. Comparisons against the thresholds and the choice of
  branch do not depend on this; the values of sums and products do.
\<close>

subsection \<open>Module constants\<close>

definition P_AND_C_CATEGORIES :: "string set" where
  "P_AND_C_CATEGORIES =
     {''auto'', ''homeowners'', ''renters'', ''plup'', ''pap'', ''other_fire'',
      ''bank'', ''business''}"

definition FS_CATEGORIES :: "string set" where
  "FS_CATEGORIES = {''life'', ''health''}"

definition CATEGORY_LABELS :: "(string \<times> string) list" where
  "CATEGORY_LABELS =
     [(''auto'', ''Auto''),
      (''homeowners'', ''Homeowners''),
      (''renters'', ''Renters''),
      (''plup'', ''Personal Umbrella''),
      (''pap'', ''Personal Articles''),
      (''other_fire'', ''Other Fire''),
      (''life'', ''Life''),
      (''health'', ''Health''),
      (''bank'', ''Bank''),
      (''business'', ''Business'')]"

subsection \<open>The \<^verbatim>\<open>Sale\<close> row\<close>

text \<open>
  A calendar date is a triple (year, month, day). The column \<^verbatim>\<open>id\<close> is called
  \<open>sale_id\<close> here; \<^verbatim>\<open>fs_monthly_premium\<close> is nullable, the other columns are not.
  The column \<^verbatim>\<open>created_at\<close> and the relationship \<^verbatim>\<open>user\<close>, which the engine never
  reads, are left out.
\<close>

type_synonym pydate = "int \<times> int \<times> int"

record Sale =
  sale_id :: int
  user_id :: int
  client_name :: string
  date_sold :: pydate
  date_effective :: pydate
  category :: string
  premium :: rat
  fs_monthly_premium :: "rat option"

subsection \<open>Bracket lookups\<close>

text \<open>
  The dictionary \<^verbatim>\<open>brackets\<close> always has the same five keys
  \<^verbatim>\<open>"1-19"\<close>, \<^verbatim>\<open>"20-29"\<close>, \<^verbatim>\<open>"30-39"\<close>, \<^verbatim>\<open>"40-49"\<close>, \<^verbatim>\<open>"50+"\<close>, and is only read at
  these keys: it is a record with one field per key.
\<close>

record brackets =
  k_1_19 :: rat
  k_20_29 :: rat
  k_30_39 :: rat
  k_40_49 :: rat
  k_50_plus :: rat

definition get_commission_rate :: "int \<Rightarrow> int \<Rightarrow> rat" where
  "get_commission_rate p_c_apps life_apps =
     (if p_c_apps \<le> 0 then 0
      else
        let brackets =
          (if life_apps \<ge> 5 then
             \<lparr>k_1_19 = 7 / 100, k_20_29 = 9 / 100, k_30_39 = 10 / 100,
              k_40_49 = 11 / 100, k_50_plus = 12 / 100\<rparr>
           else if life_apps = 4 then
             \<lparr>k_1_19 = 6 / 100, k_20_29 = 8 / 100, k_30_39 = 9 / 100,
              k_40_49 = 10 / 100, k_50_plus = 11 / 100\<rparr>
           else if life_apps = 3 then
             \<lparr>k_1_19 = 5 / 100, k_20_29 = 7 / 100, k_30_39 = 8 / 100,
              k_40_49 = 9 / 100, k_50_plus = 10 / 100\<rparr>
           else if life_apps = 2 then
             \<lparr>k_1_19 = 4 / 100, k_20_29 = 6 / 100, k_30_39 = 7 / 100,
              k_40_49 = 8 / 100, k_50_plus = 9 / 100\<rparr>
           else
             \<lparr>k_1_19 = 2 / 100, k_20_29 = 4 / 100, k_30_39 = 5 / 100,
              k_40_49 = 6 / 100, k_50_plus = 7 / 100\<rparr>)
        in
          if p_c_apps \<ge> 50 then k_50_plus brackets
          else if p_c_apps \<ge> 40 then k_40_49 brackets
          else if p_c_apps \<ge> 30 then k_30_39 brackets
          else if p_c_apps \<ge> 20 then k_20_29 brackets
          else if p_c_apps \<ge> 1 then k_1_19 brackets
          else 0)"

definition fs_bonus :: "rat \<Rightarrow> rat" where
  "fs_bonus fs_monthly_premium' =
     (if fs_monthly_premium' \<ge> 500 then 800
      else if fs_monthly_premium' \<ge> 400 then 600
      else if fs_monthly_premium' \<ge> 300 then 400
      else if fs_monthly_premium' \<ge> 200 then 200
      else 0)"

definition life_app_bonus :: "int \<Rightarrow> rat" where
  "life_app_bonus life_apps =
     (if life_apps < 6 then 0
      else
        let bonus = 500 in
        let bonus = (if life_apps > 6 then bonus + of_int (life_apps - 6) * 150 else bonus)
        in bonus)"

definition milestone_bonus :: "int \<Rightarrow> int \<Rightarrow> rat" where
  "milestone_bonus p_c_apps life_apps =
     (if p_c_apps \<ge> 30 \<and> life_apps \<ge> 4 then 1000
      else if p_c_apps \<ge> 25 \<and> life_apps \<ge> 3 then 750
      else if p_c_apps \<ge> 20 \<and> life_apps \<ge> 2 then 500
      else 0)"

subsection \<open>The engine\<close>

text \<open>
  \<^verbatim>\<open>sale.fs_monthly_premium or 0\<close>: \<^verbatim>\<open>None\<close> and the float zero are both falsy, and
  the expression is then the integer \<^verbatim>\<open>0\<close>.
\<close>

definition or_0 :: "rat option \<Rightarrow> rat" where
  "or_0 v = (case v of None \<Rightarrow> 0 | Some x \<Rightarrow> if x = 0 then 0 else x)"

text \<open>
  The figures of the \<^verbatim>\<open>context\<close> dictionary handed to the template. Its other two
  entries, \<^verbatim>\<open>target_month\<close> and the list \<^verbatim>\<open>sales\<close> itself, are the request's inputs
  echoed back and are not part of the computed breakdown.
\<close>

record calc_context =
  p_c_premium :: rat
  p_c_apps :: int
  life_apps :: int
  fs_monthly_total :: rat
  commission_rate :: rat
  commission_amount :: rat
  commission_eligible :: bool
  fs_monthly_bonus :: rat
  fs_high_bonus :: rat
  life_bonus_amount :: rat
  milestone_bonus_amount :: rat
  total_bonus :: rat
  total_compensation :: rat

text \<open>
  Lines 473 to 508 of \<^verbatim>\<open>commission_calculator\<close>, as a function of the list \<^verbatim>\<open>sales\<close>
  the query returned. The locals carry the source's names with a prime, the
  fields of the result the dictionary's keys.
\<close>

definition commission_calculator :: "Sale list \<Rightarrow> calc_context" where
  "commission_calculator sales =
     (let p_c_premium' =
            sum_list (map premium (filter (\<lambda>sale. category sale \<in> P_AND_C_CATEGORIES) sales));
          p_c_apps' =
            sum_list (map (\<lambda>sale. (1::int))
              (filter (\<lambda>sale. category sale \<in> P_AND_C_CATEGORIES) sales));
          life_apps' =
            sum_list (map (\<lambda>sale. (1::int)) (filter (\<lambda>sale. category sale = ''life'') sales));
          fs_monthly_total' =
            sum_list (map (\<lambda>sale. or_0 (fs_monthly_premium sale))
              (filter (\<lambda>sale. category sale \<in> FS_CATEGORIES) sales));
          commission_rate' = get_commission_rate p_c_apps' life_apps';
          commission_amount' =
            (if p_c_premium' \<ge> 12000 then p_c_premium' * commission_rate' else 0);
          commission_eligible' = (p_c_premium' \<ge> 12000);
          fs_monthly_bonus' = fs_bonus fs_monthly_total';
          fs_high_bonus' = (if fs_monthly_total' > 1000 then 1000 else 0);
          life_bonus_amount' = life_app_bonus life_apps';
          milestone_bonus_amount' = milestone_bonus p_c_apps' life_apps';
          total_bonus' =
            fs_monthly_bonus' + fs_high_bonus' + life_bonus_amount' + milestone_bonus_amount';
          total_compensation' = commission_amount' + total_bonus'
      in \<lparr>p_c_premium = p_c_premium',
          p_c_apps = p_c_apps',
          life_apps = life_apps',
          fs_monthly_total = fs_monthly_total',
          commission_rate = commission_rate',
          commission_amount = commission_amount',
          commission_eligible = commission_eligible',
          fs_monthly_bonus = fs_monthly_bonus',
          fs_high_bonus = fs_high_bonus',
          life_bonus_amount = life_bonus_amount',
          milestone_bonus_amount = milestone_bonus_amount',
          total_bonus = total_bonus',
          total_compensation = total_compensation'\<rparr>)"

subsection \<open>The category check at data entry\<close>

text \<open>
  \<^verbatim>\<open>enter_sale\<close> stores a row only when \<^verbatim>\<open>category in dict(CATEGORY_LABELS)\<close>, that is,
  when the category is one of the keys of \<^verbatim>\<open>CATEGORY_LABELS\<close>. The engine itself has no
  such check, no \<^verbatim>\<open>assert\<close> and no \<^verbatim>\<open>raise\<close>: \<open>commission_calculator\<close> above is a
  total function with no error result because lines 473 to 508 have none.
\<close>

definition known_category :: "Sale \<Rightarrow> bool" where
  "known_category sale = (category sale \<in> set (map fst CATEGORY_LABELS))"

subsection \<open>The bracket table as the specification words it\<close>

text \<open>
  These four definitions follow the specification, not the code: the row of the table
  is chosen by the life applications (below 2 row A, 2 row B, 3 row C, 4 row D, 5 and
  more row E; rows are numbered from 0), the column by the P&C applications (1 to 19,
  20 to 29, 30 to 39, 40 to 49, 50 and more; below 1 there is no column and the rate
  is 0).
\<close>

definition spec_life_row :: "int \<Rightarrow> nat" where
  "spec_life_row l =
     (if l < 2 then 0 else if l = 2 then 1 else if l = 3 then 2 else if l = 4 then 3 else 4)"

definition spec_pc_column :: "int \<Rightarrow> nat option" where
  "spec_pc_column p =
     (if p < 1 then None
      else if 1 \<le> p \<and> p \<le> 19 then Some 0
      else if 20 \<le> p \<and> p \<le> 29 then Some 1
      else if 30 \<le> p \<and> p \<le> 39 then Some 2
      else if 40 \<le> p \<and> p \<le> 49 then Some 3
      else Some 4)"

definition spec_rate_table :: "rat list list" where
  "spec_rate_table =
     [[2 / 100, 4 / 100, 5 / 100, 6 / 100, 7 / 100],
      [4 / 100, 6 / 100, 7 / 100, 8 / 100, 9 / 100],
      [5 / 100, 7 / 100, 8 / 100, 9 / 100, 10 / 100],
      [6 / 100, 8 / 100, 9 / 100, 10 / 100, 11 / 100],
      [7 / 100, 9 / 100, 10 / 100, 11 / 100, 12 / 100]]"

definition spec_commission_rate :: "int \<Rightarrow> int \<Rightarrow> rat" where
  "spec_commission_rate p l =
     (case spec_pc_column p of
        None \<Rightarrow> 0
      | Some j \<Rightarrow> spec_rate_table ! spec_life_row l ! j)"

subsection \<open>What the engine reads of a record\<close>



subsection \<open>Sample rows\<close>

definition mk_sale :: "string \<Rightarrow> rat \<Rightarrow> rat option \<Rightarrow> Sale" where
  "mk_sale c p f =
     \<lparr>sale_id = 1, user_id = 1, client_name = ''A. Client'', date_sold = (2024, 5, 17),
      date_effective = (2024, 6, 1), category = c, premium = p, fs_monthly_premium = f\<rparr>"



section \<open>Properties\<close>

subsection \<open>The entries of the result, one by one\<close>

lemma cc_p_c_premium:
  "p_c_premium (commission_calculator sales) =
     sum_list (map premium (filter (\<lambda>sale. category sale \<in> P_AND_C_CATEGORIES) sales))"
  by (simp add: commission_calculator_def Let_def)

lemma cc_p_c_apps:
  "p_c_apps (commission_calculator sales) =
     sum_list (map (\<lambda>sale. 1) (filter (\<lambda>sale. category sale \<in> P_AND_C_CATEGORIES) sales))"
  by (simp add: commission_calculator_def Let_def)

lemma cc_life_apps:
  "life_apps (commission_calculator sales) =
     sum_list (map (\<lambda>sale. 1) (filter (\<lambda>sale. category sale = ''life'') sales))"
  by (simp add: commission_calculator_def Let_def)

lemma cc_fs_monthly_total:
  "fs_monthly_total (commission_calculator sales) =
     sum_list (map (\<lambda>sale. or_0 (fs_monthly_premium sale))
       (filter (\<lambda>sale. category sale \<in> FS_CATEGORIES) sales))"
  by (simp add: commission_calculator_def Let_def)

lemma cc_commission_rate:
  "commission_rate (commission_calculator sales) =
     get_commission_rate (p_c_apps (commission_calculator sales))
       (life_apps (commission_calculator sales))"
  by (simp add: commission_calculator_def Let_def)

lemma cc_commission_amount:
  "commission_amount (commission_calculator sales) =
     (if p_c_premium (commission_calculator sales) \<ge> 12000
      then p_c_premium (commission_calculator sales)
        * commission_rate (commission_calculator sales)
      else 0)"
  by (simp add: commission_calculator_def Let_def)

lemma cc_commission_eligible:
  "commission_eligible (commission_calculator sales) =
     (p_c_premium (commission_calculator sales) \<ge> 12000)"
  by (simp add: commission_calculator_def Let_def)

lemma cc_fs_monthly_bonus:
  "fs_monthly_bonus (commission_calculator sales) =
     fs_bonus (fs_monthly_total (commission_calculator sales))"
  by (simp add: commission_calculator_def Let_def)

lemma cc_fs_high_bonus:
  "fs_high_bonus (commission_calculator sales) =
     (if fs_monthly_total (commission_calculator sales) > 1000 then 1000 else 0)"
  by (simp add: commission_calculator_def Let_def)

lemma cc_life_bonus_amount:
  "life_bonus_amount (commission_calculator sales) =
     life_app_bonus (life_apps (commission_calculator sales))"
  by (simp add: commission_calculator_def Let_def)

lemma cc_milestone_bonus_amount:
  "milestone_bonus_amount (commission_calculator sales) =
     milestone_bonus (p_c_apps (commission_calculator sales))
       (life_apps (commission_calculator sales))"
  by (simp add: commission_calculator_def Let_def)

lemma cc_total_bonus:
  "total_bonus (commission_calculator sales) =
     fs_monthly_bonus (commission_calculator sales) + fs_high_bonus (commission_calculator sales)
       + life_bonus_amount (commission_calculator sales)
       + milestone_bonus_amount (commission_calculator sales)"
  by (simp add: commission_calculator_def Let_def)

subsection \<open>The commission rate\<close>

text \<open>
  C1. For every pair of application counts (in particular every non-negative one), the
  rate that \<open>get_commission_rate\<close> returns is the entry of the specification's table:
  row by \<open>life_apps\<close>, column by \<open>pc_apps\<close>, and 0 when \<open>pc_apps\<close> is below 1 whatever
  \<open>life_apps\<close> is.
\<close>

theorem commission_rate_is_table:
  "get_commission_rate pc_apps life_apps' = spec_commission_rate pc_apps life_apps'"
proof (cases "pc_apps \<le> 0")
  case True
  then show ?thesis
    by (simp add: get_commission_rate_def spec_commission_rate_def spec_pc_column_def)
next
  case False
  then show ?thesis
    by (simp add: get_commission_rate_def spec_commission_rate_def spec_pc_column_def
        spec_life_row_def spec_rate_table_def Let_def)
qed

text \<open>
  The two scenarios of the specification: 8 P&C and no life applications give row A,
  column 1 to 19, rate .02; 32 P&C and 4 life applications give row D, column 30 to 39,
  rate .09. With no P&C application the rate is 0 even with 9 life applications.
\<close>

theorem commission_rate_is_table_witness:
  "get_commission_rate 8 0 = 2 / 100 \<and> get_commission_rate 32 4 = 9 / 100
   \<and> get_commission_rate 0 9 = 0"
  using commission_rate_is_table [of 8 0] commission_rate_is_table [of 32 4]
    commission_rate_is_table [of 0 9]
  by (simp add: spec_commission_rate_def spec_pc_column_def spec_life_row_def
      spec_rate_table_def)

subsection \<open>Commission eligibility\<close>

text \<open>
  C2. For every list of records: when \<open>p_c_premium\<close> is at least 12000 the commission
  amount is \<open>p_c_premium * commission_rate\<close> and \<open>commission_eligible\<close> is true; otherwise
  the commission amount is 0 and \<open>commission_eligible\<close> is false. In both cases the rate
  reported is the looked-up rate, unchanged.
\<close>

theorem commission_gated_by_premium:
  "(12000 \<le> p_c_premium (commission_calculator sales) \<longrightarrow>
      commission_amount (commission_calculator sales) =
        p_c_premium (commission_calculator sales) * commission_rate (commission_calculator sales)
      \<and> commission_eligible (commission_calculator sales))
   \<and> (p_c_premium (commission_calculator sales) < 12000 \<longrightarrow>
      commission_amount (commission_calculator sales) = 0
      \<and> \<not> commission_eligible (commission_calculator sales))
   \<and> commission_rate (commission_calculator sales) =
      get_commission_rate (p_c_apps (commission_calculator sales))
        (life_apps (commission_calculator sales))"
  by (simp add: cc_commission_amount cc_commission_eligible cc_commission_rate)

text \<open>
  One auto policy of premium 100: the rate is .02, above 0, while the commission is 0.
  Eight auto policies of premium 1875 (15000 together): rate .02, commission 300,
  eligible.
\<close>

theorem commission_gated_by_premium_witness:
  "p_c_premium (commission_calculator [mk_sale ''auto'' 100 None]) < 12000
   \<and> commission_rate (commission_calculator [mk_sale ''auto'' 100 None]) = 2 / 100
   \<and> commission_amount (commission_calculator [mk_sale ''auto'' 100 None]) = 0
   \<and> \<not> commission_eligible (commission_calculator [mk_sale ''auto'' 100 None])
   \<and> 12000 \<le> p_c_premium (commission_calculator (replicate 8 (mk_sale ''auto'' 1875 None)))
   \<and> commission_rate (commission_calculator (replicate 8 (mk_sale ''auto'' 1875 None))) = 2 / 100
   \<and> commission_amount (commission_calculator (replicate 8 (mk_sale ''auto'' 1875 None))) = 300
   \<and> commission_eligible (commission_calculator (replicate 8 (mk_sale ''auto'' 1875 None)))"
  using commission_gated_by_premium [of "[mk_sale ''auto'' 100 None]"]
    commission_gated_by_premium [of "replicate 8 (mk_sale ''auto'' 1875 None)"]
  by (simp add: cc_p_c_premium cc_p_c_apps cc_life_apps mk_sale_def P_AND_C_CATEGORIES_def
      get_commission_rate_def eval_nat_numeral)

subsection \<open>The two FS bonuses\<close>

text \<open>
  C3. \<open>fs_bonus\<close> is the step function checked from the top: 800 from 500 on, 600 on
  [400, 500), 400 on [300, 400), 200 on [200, 300), 0 below 200. In the engine
  \<open>fs_monthly_bonus\<close> is \<open>fs_bonus\<close> of \<open>fs_monthly_total\<close>; \<open>fs_high_bonus\<close> is 1000 when
  \<open>fs_monthly_total\<close> exceeds 1000 and 0 otherwise; both are summands of \<open>total_bonus\<close>,
  so above 1000 they contribute 800 + 1000 = 1800 together.
\<close>

theorem fs_bonuses_stack:
  "(500 \<le> x \<longrightarrow> fs_bonus x = 800)
   \<and> (400 \<le> x \<and> x < 500 \<longrightarrow> fs_bonus x = 600)
   \<and> (300 \<le> x \<and> x < 400 \<longrightarrow> fs_bonus x = 400)
   \<and> (200 \<le> x \<and> x < 300 \<longrightarrow> fs_bonus x = 200)
   \<and> (x < 200 \<longrightarrow> fs_bonus x = 0)
   \<and> fs_monthly_bonus (commission_calculator sales) =
       fs_bonus (fs_monthly_total (commission_calculator sales))
   \<and> (1000 < fs_monthly_total (commission_calculator sales) \<longrightarrow>
       fs_high_bonus (commission_calculator sales) = 1000)
   \<and> (fs_monthly_total (commission_calculator sales) \<le> 1000 \<longrightarrow>
       fs_high_bonus (commission_calculator sales) = 0)
   \<and> total_bonus (commission_calculator sales) =
       fs_monthly_bonus (commission_calculator sales) + fs_high_bonus (commission_calculator sales)
       + life_bonus_amount (commission_calculator sales)
       + milestone_bonus_amount (commission_calculator sales)
   \<and> (1000 < fs_monthly_total (commission_calculator sales) \<longrightarrow>
       fs_monthly_bonus (commission_calculator sales) + fs_high_bonus (commission_calculator sales)
         = 1800)"
proof -
  have steps: "(500 \<le> x \<longrightarrow> fs_bonus x = 800)
     \<and> (400 \<le> x \<and> x < 500 \<longrightarrow> fs_bonus x = 600)
     \<and> (300 \<le> x \<and> x < 400 \<longrightarrow> fs_bonus x = 400)
     \<and> (200 \<le> x \<and> x < 300 \<longrightarrow> fs_bonus x = 200)
     \<and> (x < 200 \<longrightarrow> fs_bonus x = 0)"
    by (simp add: fs_bonus_def)
  have stack: "1000 < fs_monthly_total (commission_calculator sales) \<Longrightarrow>
       fs_monthly_bonus (commission_calculator sales) + fs_high_bonus (commission_calculator sales)
         = 1800"
    by (simp add: cc_fs_monthly_bonus cc_fs_high_bonus fs_bonus_def)
  show ?thesis
    using steps stack by (simp add: cc_fs_monthly_bonus cc_fs_high_bonus cc_total_bonus)
qed

text \<open>One life policy with a monthly premium of 1200: 800 + 1000 = 1800.\<close>

theorem fs_bonuses_stack_witness:
  "fs_monthly_total (commission_calculator [mk_sale ''life'' 900 (Some 1200)]) = 1200
   \<and> fs_bonus 1200 = 800
   \<and> fs_monthly_bonus (commission_calculator [mk_sale ''life'' 900 (Some 1200)]) = 800
   \<and> fs_high_bonus (commission_calculator [mk_sale ''life'' 900 (Some 1200)]) = 1000
   \<and> total_bonus (commission_calculator [mk_sale ''life'' 900 (Some 1200)]) = 1800"
  using fs_bonuses_stack [of 1200 "[mk_sale ''life'' 900 (Some 1200)]"]
  by (simp add: cc_fs_monthly_total cc_life_bonus_amount cc_milestone_bonus_amount cc_life_apps
      cc_p_c_apps mk_sale_def FS_CATEGORIES_def P_AND_C_CATEGORIES_def or_0_def
      life_app_bonus_def milestone_bonus_def)

subsection \<open>The milestone bonus\<close>

text \<open>
  C4. \<open>milestone_bonus\<close> takes the first tier that matches, highest requirement first:
  1000 for at least 30 P&C and 4 life applications, else 750 for at least 25 and 3, else
  500 for at least 20 and 2, else 0. Its value is therefore one of 0, 500, 750 and 1000,
  never a sum of two tiers, and the engine reports exactly this value.
\<close>

theorem milestone_first_match:
  "(30 \<le> p \<and> 4 \<le> l \<longrightarrow> milestone_bonus p l = 1000)
   \<and> (\<not> (30 \<le> p \<and> 4 \<le> l) \<and> 25 \<le> p \<and> 3 \<le> l \<longrightarrow> milestone_bonus p l = 750)
   \<and> (\<not> (30 \<le> p \<and> 4 \<le> l) \<and> \<not> (25 \<le> p \<and> 3 \<le> l) \<and> 20 \<le> p \<and> 2 \<le> l \<longrightarrow>
        milestone_bonus p l = 500)
   \<and> (\<not> (30 \<le> p \<and> 4 \<le> l) \<and> \<not> (25 \<le> p \<and> 3 \<le> l) \<and> \<not> (20 \<le> p \<and> 2 \<le> l) \<longrightarrow>
        milestone_bonus p l = 0)
   \<and> milestone_bonus p l \<in> {0, 500, 750, 1000}
   \<and> milestone_bonus_amount (commission_calculator sales) =
       milestone_bonus (p_c_apps (commission_calculator sales))
         (life_apps (commission_calculator sales))"
  by (simp add: milestone_bonus_def cc_milestone_bonus_amount)

text \<open>
  32 and 4 applications meet all three tiers and earn 1000, not 1000 + 750 + 500;
  32 and 3 earn 750; 24 and 5 earn 500; 19 and 9 earn nothing.
\<close>

theorem milestone_first_match_witness:
  "milestone_bonus 32 4 = 1000 \<and> milestone_bonus 32 3 = 750 \<and> milestone_bonus 24 5 = 500
   \<and> milestone_bonus 19 9 = 0"
  using milestone_first_match [of 32 4] milestone_first_match [of 32 3]
    milestone_first_match [of 24 5] milestone_first_match [of 19 9]
  by simp

subsection \<open>The life application bonus\<close>



subsection \<open>Monotonicity of the rate\<close>

text \<open>
  C6. \<open>get_commission_rate\<close> is non-decreasing in each argument separately: more P&C
  applications at the same number of life applications never lower the rate, and
  neither do more life applications at the same number of P&C applications. This
  holds for all integers, hence for the non-negative ones.
\<close>

theorem commission_rate_mono:
  "(p \<le> p' \<longrightarrow> get_commission_rate p l \<le> get_commission_rate p' l)
   \<and> (l \<le> l' \<longrightarrow> get_commission_rate p l \<le> get_commission_rate p l')"
proof
  show "p \<le> p' \<longrightarrow> get_commission_rate p l \<le> get_commission_rate p' l"
    by (simp add: get_commission_rate_def Let_def)
  show "l \<le> l' \<longrightarrow> get_commission_rate p l \<le> get_commission_rate p l'"
    by (simp add: get_commission_rate_def Let_def)
qed

theorem commission_rate_mono_witness:
  "(19::int) \<le> 20 \<and> get_commission_rate 19 3 \<le> get_commission_rate 20 3
   \<and> (3::int) \<le> 4 \<and> get_commission_rate 19 3 \<le> get_commission_rate 19 4"
  using commission_rate_mono [of 19 20 3 4] by simp

subsection \<open>The empty month\<close>

text \<open>
  C7. With no record at all, every figure of the breakdown is zero (the four
  aggregates, the rate, the commission, the four bonuses, their total and the total
  compensation) and \<open>commission_eligible\<close> is false.
\<close>

theorem empty_month_all_zero:
  "commission_calculator [] =
     \<lparr>p_c_premium = 0, p_c_apps = 0, life_apps = 0, fs_monthly_total = 0,
      commission_rate = 0, commission_amount = 0, commission_eligible = False,
      fs_monthly_bonus = 0, fs_high_bonus = 0, life_bonus_amount = 0,
      milestone_bonus_amount = 0, total_bonus = 0, total_compensation = 0\<rparr>"
  by (simp add: commission_calculator_def get_commission_rate_def fs_bonus_def
      life_app_bonus_def milestone_bonus_def)

subsection \<open>Records of an unknown category\<close>

lemma known_categories:
  "known_category sale = (category sale \<in> P_AND_C_CATEGORIES \<union> FS_CATEGORIES)"
  by (auto simp add: known_category_def CATEGORY_LABELS_def P_AND_C_CATEGORIES_def
      FS_CATEGORIES_def)

lemma life_in_FS: "''life'' \<in> FS_CATEGORIES"
  by (simp add: FS_CATEGORIES_def)

lemma filter_known:
  assumes "\<And>sale. P sale \<Longrightarrow> known_category sale"
  shows "filter P (filter known_category sales) = filter P sales"
  using assms by (induction sales) auto

text \<open>
  C8 as stated fails. The category \<^verbatim>\<open>boat\<close> is not a key of \<^verbatim>\<open>CATEGORY_LABELS\<close>, and a
  month holding a \<^verbatim>\<open>boat\<close> record of premium 50000 and monthly premium 5000 beside one
  auto policy yields, without any error, the very breakdown of the auto policy alone.
\<close>

theorem unknown_category_not_flagged:
  "\<not> known_category (mk_sale ''boat'' 50000 (Some 5000))
   \<and> commission_calculator [mk_sale ''boat'' 50000 (Some 5000), mk_sale ''auto'' 100 None]
       = commission_calculator [mk_sale ''auto'' 100 None]"
  by (simp add: known_category_def CATEGORY_LABELS_def commission_calculator_def mk_sale_def
      P_AND_C_CATEGORIES_def FS_CATEGORIES_def)

text \<open>
  C8, amended. The engine does not flag a record whose category is outside the
  enumeration: it raises nothing and leaves the record out of every aggregate, so the
  breakdown of any list of records is the breakdown of its records of known category.
  Membership in the enumeration is checked where records are entered, not here.
\<close>

theorem unknown_category_ignored:
  "commission_calculator sales = commission_calculator (filter known_category sales)"
proof -
  have pc: "filter (\<lambda>sale. category sale \<in> P_AND_C_CATEGORIES) (filter known_category sales)
      = filter (\<lambda>sale. category sale \<in> P_AND_C_CATEGORIES) sales"
    by (rule filter_known) (simp add: known_categories)
  have fs: "filter (\<lambda>sale. category sale \<in> FS_CATEGORIES) (filter known_category sales)
      = filter (\<lambda>sale. category sale \<in> FS_CATEGORIES) sales"
    by (rule filter_known) (simp add: known_categories)
  have life: "filter (\<lambda>sale. category sale = ''life'') (filter known_category sales)
      = filter (\<lambda>sale. category sale = ''life'') sales"
    by (rule filter_known) (simp add: known_categories life_in_FS)
  show ?thesis
    unfolding commission_calculator_def pc fs life ..
qed

subsection \<open>The two category groups\<close>

text \<open>
  C9. Every category of the enumeration (the keys of \<^verbatim>\<open>CATEGORY_LABELS\<close>: auto,
  homeowners, renters, plup, pap, other_fire, life, health, bank, business) is in exactly
  one of \<open>P_AND_C_CATEGORIES\<close> and \<open>FS_CATEGORIES\<close>: the two sets are disjoint and their
  union is the enumeration.
\<close>

theorem categories_partitioned:
  "(\<forall>c \<in> set (map fst CATEGORY_LABELS).
      (c \<in> P_AND_C_CATEGORIES \<and> c \<notin> FS_CATEGORIES)
      \<or> (c \<in> FS_CATEGORIES \<and> c \<notin> P_AND_C_CATEGORIES))
   \<and> P_AND_C_CATEGORIES \<inter> FS_CATEGORIES = {}
   \<and> P_AND_C_CATEGORIES \<union> FS_CATEGORIES = set (map fst CATEGORY_LABELS)"
  by (auto simp add: CATEGORY_LABELS_def P_AND_C_CATEGORIES_def FS_CATEGORIES_def)

theorem categories_partitioned_witness:
  "''plup'' \<in> set (map fst CATEGORY_LABELS) \<and> ''plup'' \<in> P_AND_C_CATEGORIES
   \<and> ''plup'' \<notin> FS_CATEGORIES
   \<and> ''health'' \<in> set (map fst CATEGORY_LABELS) \<and> ''health'' \<in> FS_CATEGORIES
   \<and> ''health'' \<notin> P_AND_C_CATEGORIES"
proof -
  have plup: "''plup'' \<in> set (map fst CATEGORY_LABELS)"
    by (simp add: CATEGORY_LABELS_def)
  have health: "''health'' \<in> set (map fst CATEGORY_LABELS)"
    by (simp add: CATEGORY_LABELS_def)
  have "''plup'' \<notin> FS_CATEGORIES" "''health'' \<notin> P_AND_C_CATEGORIES"
    by (simp_all add: FS_CATEGORIES_def P_AND_C_CATEGORIES_def)
  with categories_partitioned [THEN conjunct1, THEN bspec, OF plup]
    categories_partitioned [THEN conjunct1, THEN bspec, OF health] plup health
  show ?thesis by blast
qed

subsection \<open>What the breakdown depends on\<close>








end
